theory Spec2Isabelle
  imports Complex_Main "HOL-Library.Char_ord" "HOL-Library.List_Lexorder" "HOL-Library.Sublist"
    "HOL-Library.Multiset"
begin

section \<open>JavaScript strings and arrays\<close>

text \<open>
  A JavaScript string is modelled as a \<^typ>\<open>string\<close>, one \<^typ>\<open>char\<close> per code unit,
  so only code units below 256 are represented. \<open>toLowerCase\<close> and \<open>toUpperCase\<close> map the ASCII
  letters and leave every other character as it is; the search words of the dashboard are
  all ASCII. The comparison \<open><\<close> of two strings is the lexicographic order on code units.
\<close>

fun toLowerChar :: "char \<Rightarrow> char" where
  "toLowerChar (Char b0 b1 b2 b3 b4 b5 b6 b7) =
     (if CHR ''A'' \<le> Char b0 b1 b2 b3 b4 b5 b6 b7 \<and> Char b0 b1 b2 b3 b4 b5 b6 b7 \<le> CHR ''Z''
      then Char b0 b1 b2 b3 b4 True b6 b7
      else Char b0 b1 b2 b3 b4 b5 b6 b7)"

fun toUpperChar :: "char \<Rightarrow> char" where
  "toUpperChar (Char b0 b1 b2 b3 b4 b5 b6 b7) =
     (if CHR ''a'' \<le> Char b0 b1 b2 b3 b4 b5 b6 b7 \<and> Char b0 b1 b2 b3 b4 b5 b6 b7 \<le> CHR ''z''
      then Char b0 b1 b2 b3 b4 False b6 b7
      else Char b0 b1 b2 b3 b4 b5 b6 b7)"

definition toLowerCase :: "string \<Rightarrow> string" where
  "toLowerCase s = map toLowerChar s"

definition toUpperCase :: "string \<Rightarrow> string" where
  "toUpperCase s = map toUpperChar s"

text \<open>\<open>s.startsWith(p)\<close> and \<open>s.includes(p)\<close>.\<close>

fun startsWith :: "string \<Rightarrow> string \<Rightarrow> bool" where
  "startsWith s [] = True"
| "startsWith [] (p # ps) = False"
| "startsWith (c # cs) (p # ps) = (c = p \<and> startsWith cs ps)"

fun includesStr :: "string \<Rightarrow> string \<Rightarrow> bool" where
  "includesStr [] p = (p = [])"
| "includesStr (c # cs) p = (startsWith (c # cs) p \<or> includesStr cs p)"

text \<open>\<open>s.trim()\<close>: the white space of the Latin-1 range is removed at both ends.\<close>

definition isWhiteSpace :: "char \<Rightarrow> bool" where
  "isWhiteSpace c = (c \<in> set [CHR 0x09, CHR 0x0A, CHR 0x0B, CHR 0x0C, CHR 0x0D, CHR 0x20, CHR 0xA0])"

definition trim :: "string \<Rightarrow> string" where
  "trim s = rev (dropWhile isWhiteSpace (rev (dropWhile isWhiteSpace s)))"

text \<open>\<open>xs.join(sep)\<close> on an array of strings.\<close>

fun join :: "string \<Rightarrow> string list \<Rightarrow> string" where
  "join sep [] = []"
| "join sep [x] = x"
| "join sep (x # y # ys) = x @ sep @ join sep (y # ys)"

text \<open>\<open>x || ''\<close> for a field that may be missing: a missing field reads as the empty string.\<close>

definition orEmpty :: "string option \<Rightarrow> string" where
  "orEmpty v = (case v of None \<Rightarrow> [] | Some s \<Rightarrow> s)"

text \<open>The decimal digits of a natural number, as a template literal prints a count.\<close>

fun showNat :: "nat \<Rightarrow> string" where
  "showNat n =
     (if n < 10 then [''0123456789'' ! n]
      else showNat (n div 10) @ [''0123456789'' ! (n mod 10)])"

declare showNat.simps [simp del]


section \<open>Engagement status\<close>

datatype status_label = Active | Warning | ReEngage

text \<open>
  Modelled from the spec: the backend function that derives a student's status label from
  the last login is not among the sources (only the labels appear, in the README legend and
  in the status filter of the dashboard). The spec gives it as a threshold comparison on the
  elapsed hours since the last login: below 24 hours \<open>active\<close>, 24 to 72 hours \<open>warning\<close>,
  above 72 hours \<open>re-engage\<close>.
\<close>

definition status_of_elapsed :: "rat \<Rightarrow> status_label" where
  "status_of_elapsed h = (if h < 24 then Active else if h \<le> 72 then Warning else ReEngage)"

text \<open>The label as the dashboard's status filter spells it.\<close>

fun label_text :: "status_label \<Rightarrow> string" where
  "label_text Active = ''active''"
| "label_text Warning = ''warning''"
| "label_text ReEngage = ''re-engage''"

text \<open>The values of the status filter's options in the dashboard.\<close>

definition statusFilterOptions :: "string list" where
  "statusFilterOptions =
     [''all'', ''complete'', ''active'', ''warning'', ''re-engage'', ''abandoned'', ''course expired'']"

text \<open>Elapsed time given as whole hours and minutes.\<close>

definition hm :: "nat \<Rightarrow> nat \<Rightarrow> rat" where
  "hm h m = of_nat h + of_nat m / 60"


section \<open>Readiness\<close>

text \<open>
  Modelled from the spec: the backend function that computes a student's readiness is not
  among the sources; the student modal only displays the criteria it receives
  (\<open>practiceExams\<close>, \<open>timeInCourse\<close>, \<open>stateLaws\<close>, \<open>videos\<close>, each with a \<open>met\<close> flag). The
  spec gives the criteria: consecutive passing practice scores at least 3, hours in course at
  least the required hours, at least 1 state-law completion with at least 1.5 hours, and at
  least 30 video minutes per category. The record holds the underlying values under the
  names the modal displays them by.
\<close>

record readiness_values =
  consecutivePassing :: nat
  hoursLogged :: rat
  hoursRequired :: rat
  completions :: nat
  hoursSpent :: rat
  videoMinutes :: "(string \<times> rat) list"

definition practiceExams_met :: "readiness_values \<Rightarrow> bool" where
  "practiceExams_met r = (3 \<le> consecutivePassing r)"

definition timeInCourse_met :: "readiness_values \<Rightarrow> bool" where
  "timeInCourse_met r = (hoursRequired r \<le> hoursLogged r)"

definition stateLaws_met :: "readiness_values \<Rightarrow> bool" where
  "stateLaws_met r = (1 \<le> completions r \<and> 3 / 2 \<le> hoursSpent r)"

definition videos_met :: "readiness_values \<Rightarrow> bool" where
  "videos_met r = list_all (\<lambda>cm. 30 \<le> snd cm) (videoMinutes r)"

definition ready :: "readiness_values \<Rightarrow> bool" where
  "ready r = (practiceExams_met r \<and> timeInCourse_met r \<and> stateLaws_met r \<and> videos_met r)"

text \<open>The four \<open>met\<close> flags, in the order of the modal.\<close>

definition met_flags :: "readiness_values \<Rightarrow> bool list" where
  "met_flags r = [practiceExams_met r, timeInCourse_met r, stateLaws_met r, videos_met r]"


section \<open>Course groups of the student modal\<close>

text \<open>
  An enrollment as the student modal receives it. \<open>courseName\<close> may be missing
  (\<open>enrollment.courseName || ''\<close>).
\<close>

record enrollment =
  courseName :: "string option"
  statusText :: string
  enrollmentProgress :: rat

definition isPreLicensingCourse :: "string \<Rightarrow> bool" where
  "isPreLicensingCourse name =
     (let lower = toLowerCase name
      in includesStr lower ''pre-licens'' \<or> includesStr lower ''prelicens''
         \<or> includesStr lower ''pre licens'')"

definition isChapterOrModule :: "string \<Rightarrow> bool" where
  "isChapterOrModule name =
     (let lower = toLowerCase name
      in includesStr lower ''module'' \<or> includesStr lower ''chapter''
         \<or> includesStr lower ''lesson'' \<or> includesStr lower ''unit'')"

definition isExamPrepCourse :: "string \<Rightarrow> bool" where
  "isExamPrepCourse name =
     (let lower = toLowerCase name
      in includesStr lower ''practice'' \<or> includesStr lower ''prep''
         \<or> includesStr lower ''study'')"

record categorized =
  preLicensing :: "enrollment list"
  examPrep :: "enrollment list"
  other :: "enrollment list"

text \<open>The body of the \<open>for\<close> loop: one enrollment is pushed to one of the three arrays.\<close>

definition categorize_step :: "enrollment \<Rightarrow> categorized \<Rightarrow> categorized" where
  "categorize_step e acc =
     (let name = orEmpty (courseName e)
      in if isPreLicensingCourse name then acc\<lparr>preLicensing := preLicensing acc @ [e]\<rparr>
         else if isChapterOrModule name then acc\<lparr>preLicensing := preLicensing acc @ [e]\<rparr>
         else if isExamPrepCourse name then acc\<lparr>examPrep := examPrep acc @ [e]\<rparr>
         else acc\<lparr>other := other acc @ [e]\<rparr>)"

fun categorize_loop :: "enrollment list \<Rightarrow> categorized \<Rightarrow> categorized" where
  "categorize_loop [] acc = acc"
| "categorize_loop (e # es) acc = categorize_loop es (categorize_step e acc)"

definition categorizeEnrollments :: "enrollment list \<Rightarrow> categorized" where
  "categorizeEnrollments enrollments =
     categorize_loop enrollments \<lparr>preLicensing = [], examPrep = [], other = []\<rparr>"

text \<open>
  The grouping as the specification words it: a case-insensitive search for a word in the
  course name, and the bucket of a name by the precedence of the three word lists.
\<close>

datatype bucket = PreLicensingBucket | ExamPrepBucket | OtherBucket

definition containsIgnoringCase :: "string \<Rightarrow> string \<Rightarrow> bool" where
  "containsIgnoringCase name word = includesStr (toLowerCase name) (toLowerCase word)"

definition bucket_of_name :: "string \<Rightarrow> bucket" where
  "bucket_of_name name =
     (if list_ex (containsIgnoringCase name) [''pre-licens'', ''prelicens'', ''pre licens'']
      then PreLicensingBucket
      else if list_ex (containsIgnoringCase name) [''module'', ''chapter'', ''lesson'', ''unit'']
      then PreLicensingBucket
      else if list_ex (containsIgnoringCase name) [''practice'', ''prep'', ''study'']
      then ExamPrepBucket
      else OtherBucket)"

definition bucket_of :: "enrollment \<Rightarrow> bucket" where
  "bucket_of e = bucket_of_name (orEmpty (courseName e))"


section \<open>The dashboard's state\<close>

text \<open>
  The objects the backend sends. A student's \<open>status\<close> object has the label \<open>status\<close> and a
  sort \<open>priority\<close>; it is the field \<open>statusObj\<close> of the student record. \<open>lastLoginRaw\<close> is
  \<open>lastLogin.raw\<close>, given by the time stamp \<open>new Date(raw).getTime()\<close> and \<open>None\<close> when the
  field is empty. \<open>progressValue\<close> is \<open>progress.value\<close>.
\<close>

record status_obj =
  status :: string
  priority :: int

record student =
  fullName :: string
  email :: string
  departmentName :: "string option"
  statusObj :: status_obj
  lastLoginRaw :: "int option"
  progressValue :: rat
  studentCourseName :: string

record summary_obj =
  activeCount :: nat
  warningCount :: nat
  reengageCount :: nat
  totalStudents :: nat

text \<open>An entry of \<open>data.departments\<close>: the department's id, \<open>'ok'\<close> or \<open>'error'\<close>, and the error text.\<close>

record department_meta =
  metaId :: string
  metaStatus :: string
  metaError :: "string option"

text \<open>A row of the exam sheet, joined to a student when \<open>matched\<close>. Every field may be missing.\<close>

record examStudent =
  examFullName :: "string option"
  examEmail :: "string option"
  examDepartmentName :: "string option"
  examStatus :: "status_obj option"
  examDateRaw :: "string option"
  examDate :: "string option"
  examProgress :: "rat option"
  passFail :: "string option"
  examState :: "string option"
  examCourseName :: "string option"
  matched :: "bool option"

text \<open>
  The exam KPIs. \<open>averageProgress\<close> stands for the fields that only the backend computes;
  it is \<open>None\<close> in a summary built from no previous one.
\<close>

record exam_summary =
  total :: int
  passed :: int
  failed :: int
  upcoming :: int
  atRisk :: int
  passRate :: rat
  noResult :: int
  averageProgress :: "rat option"

text \<open>
  The state of the \<open>Dashboard\<close> component: one field per \<open>useState\<close> hook the modelled
  functions read or write, the id of the \<open>department\<close> prop, \<open>loggedOut\<close> for a call of the
  \<open>onLogout\<close> prop, and \<open>downloads\<close> for the files the browser saved.
\<close>

record dashboard =
  departmentId :: "string option"
  students :: "student list"
  summary :: "summary_obj option"
  loading :: bool
  syncing :: bool
  loadingFull :: bool
  error :: "string option"
  lastSynced :: "int option"
  loggedOut :: bool
  extraDepartments :: "string list"
  deptInputValue :: string
  deptError :: string
  departmentMeta :: "department_meta list"
  studentDeptFilter :: "string list"
  searchTerm :: string
  statusFilter :: string
  examStudents :: "examStudent list"
  examSummary :: "exam_summary option"
  examLoading :: bool
  examLoaded :: bool
  adminKey :: string
  downloads :: "string list"


section \<open>Filtering the student list\<close>

text \<open>\<open>filteredStudents\<close> of the multi-department dashboard: search, status and department.\<close>

definition matchesSearch :: "dashboard \<Rightarrow> student \<Rightarrow> bool" where
  "matchesSearch st student =
     (let searchLower = toLowerCase (searchTerm st)
      in searchTerm st = []
         \<or> includesStr (toLowerCase (fullName student)) searchLower
         \<or> includesStr (toLowerCase (email student)) searchLower
         \<or> includesStr (toLowerCase (orEmpty (departmentName student))) searchLower)"

definition matchesStatus :: "dashboard \<Rightarrow> student \<Rightarrow> bool" where
  "matchesStatus st student =
     (statusFilter st = ''all''
      \<or> toLowerCase (status (statusObj student)) = toLowerCase (statusFilter st))"

definition matchesDept :: "dashboard \<Rightarrow> student \<Rightarrow> bool" where
  "matchesDept st student =
     (length (studentDeptFilter st) = 0
      \<or> trim (orEmpty (departmentName student)) \<in> set (studentDeptFilter st))"

definition filteredStudents :: "dashboard \<Rightarrow> student list" where
  "filteredStudents st =
     filter (\<lambda>student. matchesSearch st student \<and> matchesStatus st student \<and> matchesDept st student)
       (students st)"

text \<open>\<open>filteredStudents\<close> of the single-department dashboard: search on name and email, status.\<close>

definition matchesSearch_single :: "dashboard \<Rightarrow> student \<Rightarrow> bool" where
  "matchesSearch_single st student =
     (let searchLower = toLowerCase (searchTerm st)
      in searchTerm st = []
         \<or> includesStr (toLowerCase (fullName student)) searchLower
         \<or> includesStr (toLowerCase (email student)) searchLower)"

definition filteredStudents_single :: "dashboard \<Rightarrow> student list" where
  "filteredStudents_single st =
     filter (\<lambda>student. matchesSearch_single st student \<and> matchesStatus st student) (students st)"


section \<open>Adding and removing a department\<close>

text \<open>
  The pattern \<open>/^[0-9a-fA-F]{8}-[0-9a-fA-F]{4}-[0-9a-fA-F]{4}-[0-9a-fA-F]{4}-[0-9a-fA-F]{12}$/\<close>:
  groups of hexadecimal digits of the given lengths, with a hyphen between two groups, and
  nothing before or after.
\<close>

definition isHexDigit :: "char \<Rightarrow> bool" where
  "isHexDigit c =
     (CHR ''0'' \<le> c \<and> c \<le> CHR ''9'' \<or> CHR ''a'' \<le> c \<and> c \<le> CHR ''f''
      \<or> CHR ''A'' \<le> c \<and> c \<le> CHR ''F'')"

fun matchGroups :: "nat list \<Rightarrow> string \<Rightarrow> bool" where
  "matchGroups [] s = (s = [])"
| "matchGroups [n] s = (length s = n \<and> list_all isHexDigit s)"
| "matchGroups (n # m # ns) s =
     (n < length s \<and> list_all isHexDigit (take n s) \<and> s ! n = CHR ''-''
      \<and> matchGroups (m # ns) (drop (Suc n) s))"

definition guidPattern_test :: "string \<Rightarrow> bool" where
  "guidPattern_test s = matchGroups [8, 4, 4, 4, 12] s"

definition handleAddDepartment :: "dashboard \<Rightarrow> dashboard" where
  "handleAddDepartment st =
     (let deptId = trim (deptInputValue st)
      in if \<not> guidPattern_test deptId
         then st\<lparr>deptError := ''Invalid Department ID format (must be a GUID like xxxxxxxx-xxxx-xxxx-xxxx-xxxxxxxxxxxx)''\<rparr>
         else if (case departmentId st of None \<Rightarrow> False
                  | Some primary \<Rightarrow> toLowerCase deptId = toLowerCase primary)
         then st\<lparr>deptError := ''This is already your primary department''\<rparr>
         else if list_ex (\<lambda>d. toLowerCase d = toLowerCase deptId) (extraDepartments st)
         then st\<lparr>deptError := ''Department already added''\<rparr>
         else if length (extraDepartments st) \<ge> 10
         then st\<lparr>deptError := ''Maximum 10 additional departments''\<rparr>
         else st\<lparr>deptError := [], deptInputValue := [],
                 extraDepartments := extraDepartments st @ [deptId]\<rparr>)"

definition handleRemoveDepartment :: "string \<Rightarrow> dashboard \<Rightarrow> dashboard" where
  "handleRemoveDepartment deptId st =
     st\<lparr>extraDepartments := filter (\<lambda>d. d \<noteq> deptId) (extraDepartments st)\<rparr>"

text \<open>
  What the claim about adding a department calls a valid addition: the trimmed input is a
  GUID, differs without regard to case from the primary department's id and from every id
  already added, and fewer than 10 extra departments exist.
\<close>

definition canAddDepartment :: "dashboard \<Rightarrow> bool" where
  "canAddDepartment st =
     (guidPattern_test (trim (deptInputValue st))
      \<and> map_option toLowerCase (departmentId st) \<noteq> Some (toLowerCase (trim (deptInputValue st)))
      \<and> toLowerCase (trim (deptInputValue st)) \<notin> set (map toLowerCase (extraDepartments st))
      \<and> length (extraDepartments st) < 10)"

text \<open>The invariant of the list of extra departments.\<close>

definition extraDepartments_ok :: "string list \<Rightarrow> bool" where
  "extraDepartments_ok ds = (length ds \<le> 10 \<and> distinct (map toLowerCase ds))"


text \<open>
  The state on mount without initial data and with nothing saved in the local storage, and
  two students for the examples.
\<close>

definition initialDashboard :: dashboard where
  "initialDashboard =
     \<lparr>departmentId = None, students = [], summary = None, loading = True, syncing = False,
      loadingFull = False, error = None, lastSynced = None, loggedOut = False,
      extraDepartments = [], deptInputValue = [], deptError = [], departmentMeta = [],
      studentDeptFilter = [], searchTerm = [], statusFilter = ''all'', examStudents = [],
      examSummary = None, examLoading = False, examLoaded = False, adminKey = [],
      downloads = []\<rparr>"

definition alice :: student where
  "alice = \<lparr>fullName = ''Alice Moore'', email = ''alice@example.com'', departmentName = Some ''North'',
     statusObj = \<lparr>status = ''ACTIVE'', priority = 3\<rparr>, lastLoginRaw = Some 1700000000000,
     progressValue = 80, studentCourseName = ''Life Pre-Licensing''\<rparr>"

definition bob :: student where
  "bob = \<lparr>fullName = ''Bob Stone'', email = ''bob@example.com'', departmentName = None,
     statusObj = \<lparr>status = ''WARNING'', priority = 2\<rparr>, lastLoginRaw = None,
     progressValue = 35, studentCourseName = ''Health Pre-Licensing''\<rparr>"

definition withTwoDepartments :: dashboard where
  "withTwoDepartments =
     initialDashboard\<lparr>departmentId := Some ''11111111-2222-3333-4444-555555555555'',
       extraDepartments := [''aaaaaaaa-bbbb-cccc-dddd-eeeeeeeeeeee'']\<rparr>"


section \<open>Recomputing the exam KPIs\<close>



text \<open>\<open>s.split(sep)\<close> for a separator of one character.\<close>

fun split :: "char \<Rightarrow> string \<Rightarrow> string list" where
  "split sep [] = [[]]"
| "split sep (c # cs) =
     (if c = sep then [] # split sep cs
      else (case split sep cs of [] \<Rightarrow> [[c]] | p # ps \<Rightarrow> (c # p) # ps))"














section \<open>Sorting the tables\<close>

text \<open>
  The value a row is sorted by is a number or a string; within one column every row gives
  the same kind. \<open>lessValue\<close> is the comparison \<open>aValue < bValue\<close> on two values of one kind;
  the comparator never meets a number and a string.
\<close>

datatype sortValue = NumValue rat | StrValue string

fun lessValue :: "sortValue \<Rightarrow> sortValue \<Rightarrow> bool" where
  "lessValue (NumValue a) (NumValue b) = (a < b)"
| "lessValue (StrValue a) (StrValue b) = (a < b)"
| "lessValue (NumValue a) (StrValue b) = False"
| "lessValue (StrValue a) (NumValue b) = False"

datatype sortDirection = Asc | Desc

text \<open>The last three lines of the comparator, shared by both tables.\<close>

definition compareValues :: "sortDirection \<Rightarrow> sortValue \<Rightarrow> sortValue \<Rightarrow> int" where
  "compareValues sortDir aValue bValue =
     (if lessValue aValue bValue then (if sortDir = Asc then - 1 else 1)
      else if lessValue bValue aValue then (if sortDir = Asc then 1 else - 1)
      else 0)"

text \<open>
  \<open>Array.prototype.sort\<close> with a comparator: the language requires a stable sort, so for a
  consistent comparator the result is the one sorted arrangement that keeps rows comparing
  as equal in their order. It is computed here by insertion from the right: a row goes in
  front of the first row it does not compare greater than.
\<close>

fun insertSorted :: "('a \<Rightarrow> 'a \<Rightarrow> int) \<Rightarrow> 'a \<Rightarrow> 'a list \<Rightarrow> 'a list" where
  "insertSorted cmp x [] = [x]"
| "insertSorted cmp x (y # ys) =
     (if cmp x y \<le> 0 then x # y # ys else y # insertSorted cmp x ys)"

fun arraySort :: "('a \<Rightarrow> 'a \<Rightarrow> int) \<Rightarrow> 'a list \<Rightarrow> 'a list" where
  "arraySort cmp [] = []"
| "arraySort cmp (x # xs) = insertSorted cmp x (arraySort cmp xs)"

text \<open>The \<open>switch\<close> of \<open>StudentTable\<close>: the value of a row in the column \<open>sortField\<close>.\<close>

definition studentSortValue :: "string \<Rightarrow> student \<Rightarrow> sortValue" where
  "studentSortValue sortField a =
     (if sortField = ''name'' then StrValue (toLowerCase (fullName a))
      else if sortField = ''status'' then NumValue (of_int (priority (statusObj a)))
      else if sortField = ''lastLogin''
      then NumValue (case lastLoginRaw a of None \<Rightarrow> 0 | Some t \<Rightarrow> of_int t)
      else if sortField = ''progress'' then NumValue (progressValue a)
      else if sortField = ''course'' then StrValue (toLowerCase (studentCourseName a))
      else if sortField = ''department'' then StrValue (toLowerCase (orEmpty (departmentName a)))
      else NumValue (of_int (priority (statusObj a))))"

definition sortedStudents :: "string \<Rightarrow> sortDirection \<Rightarrow> student list \<Rightarrow> student list" where
  "sortedStudents sortField sortDir studentList =
     arraySort (\<lambda>a b. compareValues sortDir (studentSortValue sortField a) (studentSortValue sortField b))
       studentList"

text \<open>
  The \<open>switch\<close> of \<open>ExamTable\<close>. \<open>parseExamDate\<close> is applied to \<open>examDateRaw || examDate\<close>; it
  gives 0 for an empty string and otherwise what the parameter \<open>parseDate\<close> (the browser's
  \<open>Date\<close>, 0 when no format fits) gives.
\<close>

definition examDateValue :: "(string \<Rightarrow> int) \<Rightarrow> examStudent \<Rightarrow> int" where
  "examDateValue parseDate a =
     (let dateStr = (if orEmpty (examDateRaw a) \<noteq> [] then orEmpty (examDateRaw a)
                     else orEmpty (examDate a))
      in if dateStr = [] then 0 else parseDate dateStr)"

definition resultRank :: "examStudent \<Rightarrow> int" where
  "resultRank a =
     (if toUpperCase (orEmpty (passFail a)) = ''PASS'' then 1
      else if toUpperCase (orEmpty (passFail a)) = ''FAIL'' then 2 else 3)"

definition examSortValue :: "(string \<Rightarrow> int) \<Rightarrow> string \<Rightarrow> examStudent \<Rightarrow> sortValue" where
  "examSortValue parseDate sortField a =
     (if sortField = ''name'' then StrValue (toLowerCase (orEmpty (examFullName a)))
      else if sortField = ''status''
      then NumValue (case examStatus a of None \<Rightarrow> 99 | Some s \<Rightarrow> of_int (priority s))
      else if sortField = ''examDate'' then NumValue (of_int (examDateValue parseDate a))
      else if sortField = ''department'' then StrValue (toLowerCase (orEmpty (examDepartmentName a)))
      else if sortField = ''progress''
      then NumValue (case examProgress a of None \<Rightarrow> 0 | Some v \<Rightarrow> v)
      else if sortField = ''result'' then NumValue (of_int (resultRank a))
      else if sortField = ''state'' then StrValue (toLowerCase (orEmpty (examState a)))
      else if sortField = ''course'' then StrValue (toLowerCase (orEmpty (examCourseName a)))
      else NumValue (of_int (examDateValue parseDate a)))"

definition sortedExamStudents ::
  "(string \<Rightarrow> int) \<Rightarrow> string \<Rightarrow> sortDirection \<Rightarrow> examStudent list \<Rightarrow> examStudent list" where
  "sortedExamStudents parseDate sortField sortDir studentList =
     arraySort (\<lambda>a b. compareValues sortDir (examSortValue parseDate sortField a)
                        (examSortValue parseDate sortField b))
       studentList"




text \<open>Two sort values are of the same kind: both numbers or both strings.\<close>

definition sameKind :: "sortValue \<Rightarrow> sortValue \<Rightarrow> bool" where
  "sameKind u v = (case (u, v) of (NumValue _, NumValue _) \<Rightarrow> True
                   | (StrValue _, StrValue _) \<Rightarrow> True | _ \<Rightarrow> False)"


section \<open>Fetching data\<close>

text \<open>
  What \<open>await fetch(url)\<close> gives: the promise is rejected (a network failure), or it resolves
  to a response with a status code and a body. The body is \<open>None\<close> when reading it
  (\<open>res.json()\<close>, \<open>res.blob()\<close>) is rejected. \<open>res.ok\<close> holds for the codes 200 to 299.
\<close>

datatype 'a fetched = Rejected | Resolved nat "'a option"

definition ok :: "nat \<Rightarrow> bool" where
  "ok code = (200 \<le> code \<and> code \<le> 299)"



record multi_reply =
  multiSuccess :: bool
  multiStudents :: "student list"
  multiSummary :: summary_obj
  multiDepartments :: "department_meta list option"





text \<open>
  \<open>fetchMultiDeptStudents\<close>. \<open>failedDepartments\<close> are the entries of \<open>data.departments\<close> with
  the status \<open>'error'\<close>, and \<open>failedName\<close> is \<open>d.error || d.id\<close>.
\<close>

definition failedDepartments :: "department_meta list \<Rightarrow> department_meta list" where
  "failedDepartments depts = filter (\<lambda>d. metaStatus d = ''error'') depts"

definition failedName :: "department_meta \<Rightarrow> string" where
  "failedName d = (if orEmpty (metaError d) \<noteq> [] then orEmpty (metaError d) else metaId d)"

definition couldNotLoad :: "department_meta list \<Rightarrow> string" where
  "couldNotLoad failedDepts =
     ''Could not load '' @ showNat (length failedDepts) @ '' department(s): ''
       @ join '', '' (map failedName failedDepts)"

definition fetchMultiDeptStudents :: "int \<Rightarrow> multi_reply fetched \<Rightarrow> dashboard \<Rightarrow> dashboard" where
  "fetchMultiDeptStudents now res st =
     (let st1 = st\<lparr>loading := True, error := None\<rparr>;
          caught = st1\<lparr>error := Some ''Failed to load multi-department data. Please try again.'',
                       loading := False\<rparr>
      in case res of
           Rejected \<Rightarrow> caught
         | Resolved code body \<Rightarrow>
             if \<not> ok code
             then (if code = 401 then st1\<lparr>loggedOut := True, loading := False\<rparr> else caught)
             else (case body of
                     None \<Rightarrow> caught
                   | Some data \<Rightarrow>
                       if multiSuccess data
                       then (let depts = (case multiDepartments data of None \<Rightarrow> [] | Some ds \<Rightarrow> ds);
                                 st2 = st1\<lparr>students := multiStudents data,
                                           summary := Some (multiSummary data),
                                           departmentMeta := depts, lastSynced := Some now\<rparr>;
                                 failedDepts = failedDepartments depts;
                                 st3 = (if length failedDepts > 0
                                        then st2\<lparr>deptError := couldNotLoad failedDepts\<rparr> else st2)
                             in st3\<lparr>loading := False\<rparr>)
                       else st1\<lparr>loading := False\<rparr>))"

text \<open>
  \<open>handleExport\<close>. The backend is the parameter \<open>server\<close>, from the requested URL to what the
  request gives; \<open>encodeURIComponent\<close> is a parameter too. A saved file is recorded in
  \<open>downloads\<close> by its content.
\<close>

definition API_BASE :: string where
  "API_BASE = ''/api''"

definition exportUrl :: "(string \<Rightarrow> string) \<Rightarrow> dashboard \<Rightarrow> string" where
  "exportUrl encodeURIComponent st =
     (if length (extraDepartments st) > 0
      then API_BASE @ ''/dashboard/export?departments=''
             @ encodeURIComponent (join '','' (extraDepartments st))
      else API_BASE @ ''/dashboard/export'')"

definition handleExport ::
  "(string \<Rightarrow> string) \<Rightarrow> (string \<Rightarrow> string fetched) \<Rightarrow> dashboard \<Rightarrow> dashboard" where
  "handleExport encodeURIComponent server st =
     (let caught = st\<lparr>error := Some ''Failed to export data. Please try again.''\<rparr>
      in case server (exportUrl encodeURIComponent st) of
           Rejected \<Rightarrow> caught
         | Resolved code body \<Rightarrow>
             if \<not> ok code then caught
             else (case body of None \<Rightarrow> caught | Some blob \<Rightarrow> st\<lparr>downloads := downloads st @ [blob]\<rparr>))"

text \<open>
  The data rows of a CSV text: its lines after the header line, empty lines not counted.
\<close>

definition csvDataRows :: "string \<Rightarrow> nat" where
  "csvDataRows blob = length (filter (\<lambda>line. line \<noteq> []) (tl (split CHR 0x0A blob)))"





text \<open>An example backend for the export, and a dashboard that shows two students.\<close>

definition exampleCsv :: string where
  "exampleCsv = ''Name,Email'' @ [CHR 0x0A] @ ''Alice Moore,alice@example.com''
     @ [CHR 0x0A] @ ''Bob Stone,bob@example.com'' @ [CHR 0x0A]"

definition exampleServer :: "string \<Rightarrow> string fetched" where
  "exampleServer url =
     (if url = ''/api/dashboard/export'' then Resolved 200 (Some exampleCsv)
      else Resolved 404 None)"

definition exampleMultiReply :: multi_reply where
  "exampleMultiReply =
     \<lparr>multiSuccess = True, multiStudents = [alice, bob],
      multiSummary = \<lparr>activeCount = 1, warningCount = 1, reengageCount = 0, totalStudents = 2\<rparr>,
      multiDepartments = Some
        [\<lparr>metaId = ''aaaaaaaa-bbbb-cccc-dddd-eeeeeeeeeeee'', metaStatus = ''ok'', metaError = None\<rparr>,
         \<lparr>metaId = ''bbbbbbbb-bbbb-cccc-dddd-eeeeeeeeeeee'', metaStatus = ''error'',
          metaError = Some ''Department not found''\<rparr>,
         \<lparr>metaId = ''cccccccc-bbbb-cccc-dddd-eeeeeeeeeeee'', metaStatus = ''error'',
          metaError = None\<rparr>]\<rparr>"

definition twoStudents :: dashboard where
  "twoStudents = initialDashboard\<lparr>students := [alice, bob], loading := False\<rparr>"


section \<open>Properties of the engagement status\<close>

lemma label_text_in_options: "label_text l \<in> set statusFilterOptions"
  by (cases l) (simp_all add: statusFilterOptions_def)

lemma label_text_inj: "label_text a = label_text b \<Longrightarrow> a = b"
  by (cases a; cases b) simp_all

text \<open>
  Claim C1. The status label is a function of the elapsed hours since the last login alone:
  it is \<open>active\<close> exactly below 24 hours, \<open>warning\<close> exactly from 24 to 72 hours, and
  \<open>re-engage\<close> exactly above 72 hours. At 23h59m the label is still \<open>active\<close> and at 24h
  it is \<open>warning\<close>; at 71h59m and at 72h it is \<open>warning\<close> and at 72h01m it is \<open>re-engage\<close>.
\<close>

theorem status_label_thresholds:
  "(status_of_elapsed h = Active) = (h < 24)
   \<and> (status_of_elapsed h = Warning) = (24 \<le> h \<and> h \<le> 72)
   \<and> (status_of_elapsed h = ReEngage) = (72 < h)
   \<and> status_of_elapsed (hm 23 59) = Active
   \<and> status_of_elapsed (hm 24 0) = Warning
   \<and> status_of_elapsed (hm 71 59) = Warning
   \<and> status_of_elapsed (hm 72 0) = Warning
   \<and> status_of_elapsed (hm 72 1) = ReEngage
   \<and> label_text (status_of_elapsed h) \<in> {''active'', ''warning'', ''re-engage''}"
  by (simp add: status_of_elapsed_def hm_def)

theorem status_label_thresholds_witness:
  "status_of_elapsed 30 = Warning \<and> label_text (status_of_elapsed 30) = ''warning''"
  using status_label_thresholds [of 30] by simp


section \<open>Properties of readiness\<close>

text \<open>
  Claim C2. Readiness is the conjunction of the four criteria. Each \<open>met\<close> flag is the
  threshold comparison of its own underlying values, so that changing the values of one
  criterion sets that criterion's flag by its threshold and leaves the other three flags
  as they were.
\<close>

theorem readiness_conjunction_independent:
  "ready r = (practiceExams_met r \<and> timeInCourse_met r \<and> stateLaws_met r \<and> videos_met r)
   \<and> met_flags (r\<lparr>consecutivePassing := n\<rparr>)
       = [3 \<le> n, timeInCourse_met r, stateLaws_met r, videos_met r]
   \<and> met_flags (r\<lparr>hoursLogged := h\<rparr>)
       = [practiceExams_met r, hoursRequired r \<le> h, stateLaws_met r, videos_met r]
   \<and> met_flags (r\<lparr>hoursRequired := q\<rparr>)
       = [practiceExams_met r, q \<le> hoursLogged r, stateLaws_met r, videos_met r]
   \<and> met_flags (r\<lparr>completions := c\<rparr>)
       = [practiceExams_met r, timeInCourse_met r, 1 \<le> c \<and> 3 / 2 \<le> hoursSpent r, videos_met r]
   \<and> met_flags (r\<lparr>hoursSpent := t\<rparr>)
       = [practiceExams_met r, timeInCourse_met r, 1 \<le> completions r \<and> 3 / 2 \<le> t, videos_met r]
   \<and> met_flags (r\<lparr>videoMinutes := vs\<rparr>)
       = [practiceExams_met r, timeInCourse_met r, stateLaws_met r, list_all (\<lambda>cm. 30 \<le> snd cm) vs]"
  by (simp add: ready_def met_flags_def practiceExams_met_def timeInCourse_met_def
      stateLaws_met_def videos_met_def)

theorem readiness_conjunction_independent_witness:
  "met_flags \<lparr>consecutivePassing = 2, hoursLogged = 40, hoursRequired = 40, completions = 1,
       hoursSpent = 2, videoMinutes = [(''life'', 45), (''health'', 30)]\<rparr>
     = [False, True, True, True]
   \<and> met_flags \<lparr>consecutivePassing = 3, hoursLogged = 40, hoursRequired = 40, completions = 1,
       hoursSpent = 2, videoMinutes = [(''life'', 45), (''health'', 30)]\<rparr>
     = [True, True, True, True]"
  using readiness_conjunction_independent
    [of "\<lparr>consecutivePassing = 2, hoursLogged = 40, hoursRequired = 40, completions = 1,
       hoursSpent = 2, videoMinutes = [(''life'', 45), (''health'', 30)]\<rparr>" 3 40 40 1 2
       "[(''life'', 45), (''health'', 30)]"]
  by (simp add: met_flags_def practiceExams_met_def timeInCourse_met_def
      stateLaws_met_def videos_met_def)


section \<open>Properties of the course groups\<close>

lemma toLowerChar_idem: "toLowerChar (toLowerChar c) = toLowerChar c"
  by (cases c) (auto simp: less_eq_char_def)

lemma toLowerChar_toUpperChar: "toLowerChar (toUpperChar c) = toLowerChar c"
  by (cases c) (auto simp: less_eq_char_def)

lemma toLowerCase_idem: "toLowerCase (toLowerCase s) = toLowerCase s"
  by (simp add: toLowerCase_def toLowerChar_idem)

lemma toLowerCase_toUpperCase: "toLowerCase (toUpperCase s) = toLowerCase s"
  by (simp add: toLowerCase_def toUpperCase_def toLowerChar_toUpperChar)

lemma isPreLicensingCourse_words:
  "isPreLicensingCourse name =
     list_ex (containsIgnoringCase name) [''pre-licens'', ''prelicens'', ''pre licens'']"
  by (simp add: isPreLicensingCourse_def containsIgnoringCase_def toLowerCase_def Let_def)

lemma isChapterOrModule_words:
  "isChapterOrModule name =
     list_ex (containsIgnoringCase name) [''module'', ''chapter'', ''lesson'', ''unit'']"
  by (simp add: isChapterOrModule_def containsIgnoringCase_def toLowerCase_def Let_def)

lemma isExamPrepCourse_words:
  "isExamPrepCourse name =
     list_ex (containsIgnoringCase name) [''practice'', ''prep'', ''study'']"
  by (simp add: isExamPrepCourse_def containsIgnoringCase_def toLowerCase_def Let_def)

lemma categorize_step_bucket:
  "categorize_step e acc =
     (case bucket_of e of
        PreLicensingBucket \<Rightarrow> acc\<lparr>preLicensing := preLicensing acc @ [e]\<rparr>
      | ExamPrepBucket \<Rightarrow> acc\<lparr>examPrep := examPrep acc @ [e]\<rparr>
      | OtherBucket \<Rightarrow> acc\<lparr>other := other acc @ [e]\<rparr>)"
  unfolding categorize_step_def bucket_of_def bucket_of_name_def Let_def
    isPreLicensingCourse_words isChapterOrModule_words isExamPrepCourse_words
  by simp

lemma categorize_loop_filter:
  "categorize_loop es acc =
     \<lparr>preLicensing = preLicensing acc @ filter (\<lambda>e. bucket_of e = PreLicensingBucket) es,
      examPrep = examPrep acc @ filter (\<lambda>e. bucket_of e = ExamPrepBucket) es,
      other = other acc @ filter (\<lambda>e. bucket_of e = OtherBucket) es\<rparr>"
proof (induction es arbitrary: acc)
  case Nil
  show ?case by simp
next
  case (Cons e es)
  show ?case
    by (cases "bucket_of e") (simp_all add: Cons.IH categorize_step_bucket)
qed

lemma bucket_partition_length:
  "length (filter (\<lambda>e. bucket_of e = PreLicensingBucket) es)
   + length (filter (\<lambda>e. bucket_of e = ExamPrepBucket) es)
   + length (filter (\<lambda>e. bucket_of e = OtherBucket) es) = length es"
proof (induction es)
  case Nil
  show ?case by simp
next
  case (Cons e es)
  then show ?case by (cases "bucket_of e") simp_all
qed

text \<open>
  Claim C7. For every list of enrollments the three arrays are the enrollments whose course
  name falls in the bucket pre-licensing, exam-prep and other, each in the order of the
  input; the bucket of a name is decided by case-insensitive substring search with the
  precedence pre-licensing words, then chapter and module words, then exam-prep words, then
  other. Every enrollment is in exactly one array: the three lengths add up to the length of
  the input, and names that differ only in case go to the same bucket.
\<close>

theorem categorizeEnrollments_buckets:
  "categorizeEnrollments es =
     \<lparr>preLicensing = filter (\<lambda>e. bucket_of e = PreLicensingBucket) es,
      examPrep = filter (\<lambda>e. bucket_of e = ExamPrepBucket) es,
      other = filter (\<lambda>e. bucket_of e = OtherBucket) es\<rparr>
   \<and> length (preLicensing (categorizeEnrollments es)) + length (examPrep (categorizeEnrollments es))
       + length (other (categorizeEnrollments es)) = length es
   \<and> bucket_of_name (toUpperCase name) = bucket_of_name name
   \<and> bucket_of_name (toLowerCase name) = bucket_of_name name"
proof -
  have filters: "categorizeEnrollments es =
     \<lparr>preLicensing = filter (\<lambda>e. bucket_of e = PreLicensingBucket) es,
      examPrep = filter (\<lambda>e. bucket_of e = ExamPrepBucket) es,
      other = filter (\<lambda>e. bucket_of e = OtherBucket) es\<rparr>"
    by (simp add: categorizeEnrollments_def categorize_loop_filter)
  have lengths: "length (preLicensing (categorizeEnrollments es))
       + length (examPrep (categorizeEnrollments es))
       + length (other (categorizeEnrollments es)) = length es"
    by (simp add: filters bucket_partition_length)
  have upper: "bucket_of_name (toUpperCase name) = bucket_of_name name"
    by (simp add: bucket_of_name_def containsIgnoringCase_def toLowerCase_toUpperCase)
  have lower: "bucket_of_name (toLowerCase name) = bucket_of_name name"
    by (simp add: bucket_of_name_def containsIgnoringCase_def toLowerCase_idem)
  from filters lengths upper lower show ?thesis by blast
qed

theorem categorizeEnrollments_buckets_witness:
  "categorizeEnrollments
     [\<lparr>courseName = Some ''Pre-Licensing Practice Exam'', statusText = ''In Progress'', enrollmentProgress = 40\<rparr>,
      \<lparr>courseName = Some ''Exam Prep'', statusText = ''Not Started'', enrollmentProgress = 0\<rparr>,
      \<lparr>courseName = Some ''UNIT 4 Study Guide'', statusText = ''Complete'', enrollmentProgress = 100\<rparr>,
      \<lparr>courseName = None, statusText = ''Not Started'', enrollmentProgress = 0\<rparr>]
   = \<lparr>preLicensing =
        [\<lparr>courseName = Some ''Pre-Licensing Practice Exam'', statusText = ''In Progress'', enrollmentProgress = 40\<rparr>,
         \<lparr>courseName = Some ''UNIT 4 Study Guide'', statusText = ''Complete'', enrollmentProgress = 100\<rparr>],
      examPrep = [\<lparr>courseName = Some ''Exam Prep'', statusText = ''Not Started'', enrollmentProgress = 0\<rparr>],
      other = [\<lparr>courseName = None, statusText = ''Not Started'', enrollmentProgress = 0\<rparr>]\<rparr>"
  using categorizeEnrollments_buckets
    [of "[\<lparr>courseName = Some ''Pre-Licensing Practice Exam'', statusText = ''In Progress'', enrollmentProgress = 40\<rparr>,
      \<lparr>courseName = Some ''Exam Prep'', statusText = ''Not Started'', enrollmentProgress = 0\<rparr>,
      \<lparr>courseName = Some ''UNIT 4 Study Guide'', statusText = ''Complete'', enrollmentProgress = 100\<rparr>,
      \<lparr>courseName = None, statusText = ''Not Started'', enrollmentProgress = 0\<rparr>]" "''x''"]
  by (simp add: bucket_of_def bucket_of_name_def containsIgnoringCase_def toLowerCase_def orEmpty_def)

section \<open>Properties of the filtered student list\<close>

lemma filteredStudents_all:
  "searchTerm st = [] \<Longrightarrow> statusFilter st = ''all'' \<Longrightarrow> studentDeptFilter st = [] \<Longrightarrow>
   filteredStudents st = students st"
  by (simp add: filteredStudents_def matchesSearch_def matchesStatus_def matchesDept_def)

lemma filteredStudents_single_all:
  "searchTerm st = [] \<Longrightarrow> statusFilter st = ''all'' \<Longrightarrow> filteredStudents_single st = students st"
  by (simp add: filteredStudents_single_def matchesSearch_single_def matchesStatus_def)

text \<open>
  Claim C8. For every student list and every search term, status filter and department
  filter, the filtered list is a subsequence of the student list, so that it is never longer
  (the count in \<open>Showing X of Y students\<close>); with an empty search term, the status filter
  \<open>all\<close> and no department selected, the filtered list is the student list. The same holds
  for the single-department dashboard, which has no department filter.
\<close>

theorem filteredStudents_subseq:
  "subseq (filteredStudents st) (students st)
   \<and> length (filteredStudents st) \<le> length (students st)
   \<and> (searchTerm st = [] \<and> statusFilter st = ''all'' \<and> studentDeptFilter st = []
        \<longrightarrow> filteredStudents st = students st)
   \<and> subseq (filteredStudents_single st) (students st)
   \<and> length (filteredStudents_single st) \<le> length (students st)
   \<and> (searchTerm st = [] \<and> statusFilter st = ''all''
        \<longrightarrow> filteredStudents_single st = students st)"
  using filteredStudents_all [of st] filteredStudents_single_all [of st]
  by (simp add: filteredStudents_def filteredStudents_single_def)

theorem filteredStudents_subseq_witness:
  "filteredStudents (initialDashboard\<lparr>students := [alice, bob]\<rparr>) = [alice, bob]
   \<and> filteredStudents_single (initialDashboard\<lparr>students := [alice, bob]\<rparr>) = [alice, bob]
   \<and> filteredStudents (initialDashboard\<lparr>students := [alice, bob], statusFilter := ''warning''\<rparr>) = [bob]
   \<and> length (filteredStudents (initialDashboard\<lparr>students := [alice, bob], statusFilter := ''warning''\<rparr>)) \<le> 2"
  using filteredStudents_subseq [of "initialDashboard\<lparr>students := [alice, bob]\<rparr>"]
    filteredStudents_subseq [of "initialDashboard\<lparr>students := [alice, bob], statusFilter := ''warning''\<rparr>"]
  by (simp add: initialDashboard_def filteredStudents_def matchesSearch_def matchesStatus_def
      matchesDept_def alice_def bob_def toLowerCase_def)


section \<open>Properties of adding a department\<close>

lemma list_ex_lower:
  "list_ex (\<lambda>d. toLowerCase d = x) ds = (x \<in> set (map toLowerCase ds))"
  by (auto simp: list_ex_iff)

lemma primary_test:
  "(case d of None \<Rightarrow> False | Some primary \<Rightarrow> x = toLowerCase primary)
     = (map_option toLowerCase d = Some x)"
  by (cases d) auto

lemma handleAddDepartment_cases:
  "handleAddDepartment st =
     (if canAddDepartment st
      then st\<lparr>deptError := [], deptInputValue := [],
              extraDepartments := extraDepartments st @ [trim (deptInputValue st)]\<rparr>
      else st\<lparr>deptError := deptError (handleAddDepartment st)\<rparr>)"
  unfolding handleAddDepartment_def canAddDepartment_def Let_def list_ex_lower primary_test
  by (auto simp: not_le)

lemma handleAddDepartment_rejected:
  "\<not> canAddDepartment st \<Longrightarrow>
   handleAddDepartment st = st\<lparr>deptError := deptError (handleAddDepartment st)\<rparr>"
  unfolding handleAddDepartment_def canAddDepartment_def Let_def list_ex_lower primary_test
  by (auto simp: not_le)

lemma handleAddDepartment_message:
  "\<not> canAddDepartment st \<Longrightarrow> deptError (handleAddDepartment st) \<noteq> []"
  unfolding handleAddDepartment_def canAddDepartment_def Let_def list_ex_lower primary_test
  by (auto simp: not_le)

lemma handleRemoveDepartment_invariant:
  "extraDepartments_ok (extraDepartments st) \<Longrightarrow>
   extraDepartments_ok (extraDepartments (handleRemoveDepartment d st))"
proof -
  assume ok: "extraDepartments_ok (extraDepartments st)"
  have "length (filter (\<lambda>x. x \<noteq> d) (extraDepartments st)) \<le> 10"
    using ok le_trans [OF length_filter_le, of "extraDepartments st" 10 "\<lambda>x. x \<noteq> d"]
    by (simp add: extraDepartments_ok_def)
  moreover have "distinct (map toLowerCase (filter (\<lambda>x. x \<noteq> d) (extraDepartments st)))"
    using ok by (simp add: extraDepartments_ok_def distinct_map_filter)
  ultimately show ?thesis
    by (simp add: extraDepartments_ok_def handleRemoveDepartment_def)
qed

lemma handleAddDepartment_invariant:
  "extraDepartments_ok (extraDepartments st) \<Longrightarrow>
   extraDepartments_ok (extraDepartments (handleAddDepartment st))"
proof (cases "canAddDepartment st")
  case True
  assume "extraDepartments_ok (extraDepartments st)"
  with True show ?thesis
    by (subst handleAddDepartment_cases)
       (auto simp: extraDepartments_ok_def canAddDepartment_def)
next
  case False
  assume ok: "extraDepartments_ok (extraDepartments st)"
  have "extraDepartments (handleAddDepartment st) = extraDepartments st"
    by (subst handleAddDepartment_cases) (simp add: False)
  with ok show ?thesis by simp
qed

text \<open>
  Claim C10. Adding a department appends the trimmed input to the list of extra departments
  when it is a GUID, differs without regard to case from the primary department's id and
  from every id already added, and fewer than 10 extra departments exist; the error message
  and the input field are cleared. In every other case only the error message changes, and
  it is set to a non-empty text: the list stays as it was. A list of at most 10 entries
  without duplicates up to case keeps both properties when a department is added or
  removed, and the empty list has them.
\<close>

theorem handleAddDepartment_guarded:
  "(canAddDepartment st \<longrightarrow>
      handleAddDepartment st =
        st\<lparr>deptError := [], deptInputValue := [],
           extraDepartments := extraDepartments st @ [trim (deptInputValue st)]\<rparr>)
   \<and> (\<not> canAddDepartment st \<longrightarrow>
        extraDepartments (handleAddDepartment st) = extraDepartments st
        \<and> deptError (handleAddDepartment st) \<noteq> []
        \<and> handleAddDepartment st = st\<lparr>deptError := deptError (handleAddDepartment st)\<rparr>)
   \<and> (extraDepartments_ok (extraDepartments st) \<longrightarrow>
        extraDepartments_ok (extraDepartments (handleAddDepartment st)))
   \<and> (extraDepartments_ok (extraDepartments st) \<longrightarrow>
        extraDepartments_ok (extraDepartments (handleRemoveDepartment d st)))
   \<and> extraDepartments_ok []"
proof -
  have accepted: "canAddDepartment st \<longrightarrow>
      handleAddDepartment st =
        st\<lparr>deptError := [], deptInputValue := [],
           extraDepartments := extraDepartments st @ [trim (deptInputValue st)]\<rparr>"
    by (subst handleAddDepartment_cases) simp
  have same: "\<not> canAddDepartment st \<longrightarrow>
      handleAddDepartment st = st\<lparr>deptError := deptError (handleAddDepartment st)\<rparr>"
    using handleAddDepartment_rejected [of st] by blast
  have unchanged: "\<not> canAddDepartment st \<longrightarrow>
      extraDepartments (handleAddDepartment st) = extraDepartments st"
    by (subst handleAddDepartment_cases) simp
  have empty: "extraDepartments_ok []"
    by (simp add: extraDepartments_ok_def)
  from accepted same unchanged empty handleAddDepartment_message [of st]
    handleAddDepartment_invariant [of st] handleRemoveDepartment_invariant [of st d]
  show ?thesis by blast
qed

lemma canAdd_example:
  "canAddDepartment (withTwoDepartments\<lparr>deptInputValue := '' 3F2504E0-4F89-11D3-9A0C-0305E82C3301 ''\<rparr>)"
  by (simp add: canAddDepartment_def withTwoDepartments_def initialDashboard_def trim_def
      isWhiteSpace_def guidPattern_test_def isHexDigit_def toLowerCase_def)

lemma cannotAdd_example:
  "\<not> canAddDepartment (withTwoDepartments\<lparr>deptInputValue := ''AAAAAAAA-BBBB-CCCC-DDDD-EEEEEEEEEEEE''\<rparr>)"
  by (simp add: canAddDepartment_def withTwoDepartments_def initialDashboard_def trim_def
      isWhiteSpace_def guidPattern_test_def isHexDigit_def toLowerCase_def)

theorem handleAddDepartment_guarded_witness:
  "extraDepartments (handleAddDepartment
      (withTwoDepartments\<lparr>deptInputValue := '' 3F2504E0-4F89-11D3-9A0C-0305E82C3301 ''\<rparr>))
     = [''aaaaaaaa-bbbb-cccc-dddd-eeeeeeeeeeee'', ''3F2504E0-4F89-11D3-9A0C-0305E82C3301'']
   \<and> extraDepartments (handleAddDepartment
      (withTwoDepartments\<lparr>deptInputValue := ''AAAAAAAA-BBBB-CCCC-DDDD-EEEEEEEEEEEE''\<rparr>))
     = [''aaaaaaaa-bbbb-cccc-dddd-eeeeeeeeeeee'']
   \<and> deptError (handleAddDepartment
      (withTwoDepartments\<lparr>deptInputValue := ''AAAAAAAA-BBBB-CCCC-DDDD-EEEEEEEEEEEE''\<rparr>)) \<noteq> []"
  using canAdd_example cannotAdd_example
    handleAddDepartment_guarded
      [of "withTwoDepartments\<lparr>deptInputValue := '' 3F2504E0-4F89-11D3-9A0C-0305E82C3301 ''\<rparr>"]
    handleAddDepartment_guarded
      [of "withTwoDepartments\<lparr>deptInputValue := ''AAAAAAAA-BBBB-CCCC-DDDD-EEEEEEEEEEEE''\<rparr>"]
  by (simp add: withTwoDepartments_def initialDashboard_def trim_def isWhiteSpace_def)

section \<open>Properties of the exam KPIs\<close>














section \<open>Properties of sorting\<close>





lemma mset_insertSorted: "mset (insertSorted cmp x ys) = add_mset x (mset ys)"
  by (induction ys) simp_all

lemma mset_arraySort: "mset (arraySort cmp xs) = mset xs"
  by (induction xs) (simp_all add: mset_insertSorted)

lemma length_arraySort: "length (arraySort cmp xs) = length xs"
  using mset_arraySort [of cmp xs] by (metis size_mset)

lemma set_insertSorted: "set (insertSorted cmp x ys) = insert x (set ys)"
  by (induction ys) auto

lemma set_arraySort: "set (arraySort cmp xs) = set xs"
  by (induction xs) (simp_all add: set_insertSorted)

lemma compareValues_trans:
  "sameKind u v \<Longrightarrow> sameKind v w \<Longrightarrow> compareValues d u v \<le> 0 \<Longrightarrow> compareValues d v w \<le> 0
   \<Longrightarrow> compareValues d u w \<le> 0"
  by (cases u; cases v; cases w; cases d)
     (auto simp: compareValues_def sameKind_def split: if_splits)

lemma compareValues_total:
  "sameKind u v \<Longrightarrow> 0 < compareValues d u v \<Longrightarrow> compareValues d v u \<le> 0"
  by (cases u; cases v; cases d) (auto simp: compareValues_def sameKind_def split: if_splits)

lemma sorted_insertSorted:
  assumes kinds: "\<And>a b. sameKind (val a) (val b)"
    and sorted: "sorted_wrt (\<lambda>a b. compareValues d (val a) (val b) \<le> 0) ys"
  shows "sorted_wrt (\<lambda>a b. compareValues d (val a) (val b) \<le> 0)
           (insertSorted (\<lambda>a b. compareValues d (val a) (val b)) x ys)"
  using sorted
proof (induction ys)
  case Nil
  show ?case by simp
next
  case (Cons y ys)
  show ?case
  proof (cases "compareValues d (val x) (val y) \<le> 0")
    case True
    have "compareValues d (val x) (val z) \<le> 0" if "z \<in> set ys" for z
      using that Cons.prems True compareValues_trans [OF kinds kinds, of d x y z] by auto
    with True Cons.prems show ?thesis by auto
  next
    case False
    then have "compareValues d (val y) (val x) \<le> 0"
      using compareValues_total [OF kinds, of d x y] by simp
    with False Cons show ?thesis by (auto simp: set_insertSorted)
  qed
qed

lemma sorted_arraySort:
  assumes "\<And>a b. sameKind (val a) (val b)"
  shows "sorted_wrt (\<lambda>a b. compareValues d (val a) (val b) \<le> 0)
           (arraySort (\<lambda>a b. compareValues d (val a) (val b)) xs)"
  by (induction xs) (simp_all add: sorted_insertSorted [OF assms])

lemma studentSortValue_kind: "sameKind (studentSortValue f a) (studentSortValue f b)"
  by (simp add: studentSortValue_def sameKind_def)

lemma examSortValue_kind: "sameKind (examSortValue p f a) (examSortValue p f b)"
  by (simp add: examSortValue_def sameKind_def)

lemma sortedStudents_sorted:
  "sorted_wrt (\<lambda>a b. compareValues d (studentSortValue f a) (studentSortValue f b) \<le> 0)
     (sortedStudents f d rows)"
  unfolding sortedStudents_def by (rule sorted_arraySort) (rule studentSortValue_kind)

lemma sortedExamStudents_sorted:
  "sorted_wrt (\<lambda>a b. compareValues d (examSortValue p f a) (examSortValue p f b) \<le> 0)
     (sortedExamStudents p f d rows)"
  unfolding sortedExamStudents_def by (rule sorted_arraySort) (rule examSortValue_kind)




section \<open>Properties of the export\<close>

lemma exportUrl_filters:
  "exportUrl enc (st\<lparr>searchTerm := q, statusFilter := f, studentDeptFilter := d\<rparr>) = exportUrl enc st"
  by (simp add: exportUrl_def)

lemma handleExport_downloads:
  "downloads (handleExport enc server st) =
     (case server (exportUrl enc st) of
        Resolved code (Some blob) \<Rightarrow> if ok code then downloads st @ [blob] else downloads st
      | _ \<Rightarrow> downloads st)"
  by (simp add: handleExport_def Let_def split: fetched.split option.split)

lemma example_export:
  "downloads (handleExport (\<lambda>s. s) exampleServer twoStudents)
     = [exampleCsv]"
  by (simp add: handleExport_downloads exportUrl_def exampleServer_def twoStudents_def
      initialDashboard_def API_BASE_def ok_def)

lemma example_rows:
  "csvDataRows exampleCsv = 2"
  by (simp add: csvDataRows_def exampleCsv_def)

lemma example_filtered:
  "filteredStudents (twoStudents\<lparr>statusFilter := ''warning''\<rparr>) = [bob]"
  by (simp add: twoStudents_def initialDashboard_def filteredStudents_def matchesSearch_def
      matchesStatus_def matchesDept_def alice_def bob_def toLowerCase_def)

lemma export_rows_cannot_follow_filter:
  "\<not> (\<forall>f. map csvDataRows (downloads (handleExport enc server (twoStudents\<lparr>statusFilter := f\<rparr>)))
          = [length (filteredStudents (twoStudents\<lparr>statusFilter := f\<rparr>))])"
proof
  assume all: "\<forall>f. map csvDataRows (downloads (handleExport enc server (twoStudents\<lparr>statusFilter := f\<rparr>)))
          = [length (filteredStudents (twoStudents\<lparr>statusFilter := f\<rparr>))]"
  have same: "downloads (handleExport enc server (twoStudents\<lparr>statusFilter := ''warning''\<rparr>))
      = downloads (handleExport enc server (twoStudents\<lparr>statusFilter := ''all''\<rparr>))"
    by (simp add: handleExport_downloads exportUrl_def split: fetched.split option.split)
  have "filteredStudents (twoStudents\<lparr>statusFilter := ''all''\<rparr>) = [alice, bob]"
    by (simp add: twoStudents_def initialDashboard_def filteredStudents_def matchesSearch_def
      matchesStatus_def matchesDept_def)
  with all [rule_format, of "''all''"] all [rule_format, of "''warning''"] same example_filtered
  show False by simp
qed

text \<open>
  Claim C4 says that for every search term and status filter the exported CSV has as many
  data rows as the filtered student list has students. It fails: with the status filter
  \<open>warning\<close> the dashboard shows one of the two students, and the file the example backend
  sends for the export has two data rows. \<open>export_rows_cannot_follow_filter\<close> shows that no
  backend can make the claim hold for this dashboard.
\<close>

theorem export_rows_counterexample:
  "map csvDataRows (downloads (handleExport (\<lambda>s. s) exampleServer
      (twoStudents\<lparr>statusFilter := ''warning''\<rparr>))) = [2]
   \<and> length (filteredStudents (twoStudents\<lparr>statusFilter := ''warning''\<rparr>)) = 1"
proof -
  have "downloads (handleExport (\<lambda>s. s) exampleServer (twoStudents\<lparr>statusFilter := ''warning''\<rparr>))
      = downloads (handleExport (\<lambda>s. s) exampleServer twoStudents)"
    by (simp add: handleExport_downloads exportUrl_def split: fetched.split option.split)
  then show ?thesis
    by (simp add: example_export example_rows example_filtered)
qed

text \<open>
  Claim C4, amended. The URL of the export request is built from the list of extra
  departments alone, and the saved file is the body the backend sends for that URL. So the
  search term, the status filter and the department filter do not change the exported file:
  its number of data rows is the same for every combination of them.
\<close>

theorem export_ignores_filters:
  "exportUrl enc (st\<lparr>searchTerm := q, statusFilter := f, studentDeptFilter := d\<rparr>) = exportUrl enc st
   \<and> downloads (handleExport enc server (st\<lparr>searchTerm := q, statusFilter := f, studentDeptFilter := d\<rparr>))
       = downloads (handleExport enc server st)
   \<and> (server (exportUrl enc st) = Resolved code (Some blob) \<and> ok code
        \<longrightarrow> downloads (handleExport enc server st) = downloads st @ [blob])"
  by (simp add: handleExport_downloads exportUrl_filters split: fetched.split option.split)

theorem export_ignores_filters_witness:
  "map csvDataRows (downloads (handleExport (\<lambda>s. s) exampleServer
      (twoStudents\<lparr>searchTerm := ''bob'', statusFilter := ''warning'', studentDeptFilter := []\<rparr>))) = [2]"
  using export_ignores_filters [where enc = "\<lambda>s. s" and st = twoStudents and q = "''bob''"
      and f = "''warning''" and d = "[]" and server = exampleServer and code = 200
      and blob = exampleCsv]
  by (simp add: example_export example_rows)


section \<open>Properties of the fetch failures\<close>














section \<open>Properties of the multi-department fetch\<close>

lemma fetchMultiDeptStudents_success:
  assumes "ok code" "multiSuccess data"
  shows "fetchMultiDeptStudents now (Resolved code (Some data)) st =
     st\<lparr>loading := False, error := None, students := multiStudents data,
        summary := Some (multiSummary data),
        departmentMeta := (case multiDepartments data of None \<Rightarrow> [] | Some ds \<Rightarrow> ds),
        lastSynced := Some now,
        deptError :=
          (if failedDepartments (case multiDepartments data of None \<Rightarrow> [] | Some ds \<Rightarrow> ds) = []
           then deptError st
           else couldNotLoad (failedDepartments (case multiDepartments data of None \<Rightarrow> [] | Some ds \<Rightarrow> ds)))\<rparr>"
  using assms by (simp add: fetchMultiDeptStudents_def Let_def)

text \<open>
  Claim C6. When the multi-department reply is a success and lists departments that failed,
  the dashboard shows every student and the summary of the reply, no row is dropped, the
  error banner stays empty and the user stays logged in; the department error reads
  \<open>Could not load N department(s): \<close> followed by the error text, or else the id, of each
  failed department, where \<open>N\<close> is their count.
\<close>

theorem multiDept_partial_failure:
  assumes "ok code" "multiSuccess data" "multiDepartments data = Some depts"
    and "failedDepartments depts \<noteq> []"
    and "st' = fetchMultiDeptStudents now (Resolved code (Some data)) st"
  shows "students st' = multiStudents data
   \<and> summary st' = Some (multiSummary data)
   \<and> departmentMeta st' = depts
   \<and> error st' = None \<and> loggedOut st' = loggedOut st \<and> loading st' = False
   \<and> deptError st' =
        ''Could not load '' @ showNat (length (filter (\<lambda>d. metaStatus d = ''error'') depts))
          @ '' department(s): ''
          @ join '', '' (map (\<lambda>d. if orEmpty (metaError d) \<noteq> [] then orEmpty (metaError d) else metaId d)
                (filter (\<lambda>d. metaStatus d = ''error'') depts))"
proof -
  have names: "map failedName ds = map (\<lambda>d. if orEmpty (metaError d) \<noteq> [] then orEmpty (metaError d) else metaId d) ds"
    for ds by (simp add: failedName_def)
  have "st' = st\<lparr>loading := False, error := None, students := multiStudents data,
        summary := Some (multiSummary data), departmentMeta := depts, lastSynced := Some now,
        deptError := couldNotLoad (failedDepartments depts)\<rparr>"
    using assms by (simp add: fetchMultiDeptStudents_success)
  then show ?thesis
    by (simp add: couldNotLoad_def names) (simp add: failedDepartments_def)
qed

theorem multiDept_partial_failure_witness:
  "students (fetchMultiDeptStudents 0 (Resolved 200 (Some exampleMultiReply)) initialDashboard)
     = [alice, bob]
   \<and> error (fetchMultiDeptStudents 0 (Resolved 200 (Some exampleMultiReply)) initialDashboard) = None
   \<and> deptError (fetchMultiDeptStudents 0 (Resolved 200 (Some exampleMultiReply)) initialDashboard)
     = ''Could not load 2 department(s): Department not found, cccccccc-bbbb-cccc-dddd-eeeeeeeeeeee''"
  using multiDept_partial_failure [where code = 200 and data = exampleMultiReply and now = 0
      and st = initialDashboard and depts = "the (multiDepartments exampleMultiReply)", OF _ _ _ _ refl]
  by (simp add: ok_def exampleMultiReply_def failedDepartments_def orEmpty_def showNat.simps)

end
